theory Spec2Isabelle
  imports Main "HOL-Library.Char_ord" "HOL-Library.List_Lexorder"
begin

section \<open>Messages and replies\<close>

text \<open>
  Modelled from the spec: the types \<open>RecordsDeleteMessage\<close> and \<open>TimestampedMessage\<close>
  (\<open>interfaces/records/types.js\<close>, \<open>core/types.js\<close>) are not among the sources. By the
  wire shape of the spec a message is a descriptor and an authorization, and the
  descriptor of a delete has the fields \<open>interface\<close>, \<open>method\<close>, \<open>dateCreated\<close> and
  \<open>recordId\<close>; these are the fields the handler and the comparison read. The shape is
  open: \<open>rest\<close> holds the further own properties of the descriptor object, each with its
  name, in insertion order. The names of an object are distinct, so none of them is one
  of the four.
  TypeScript string enums are strings at run time, so both names are strings here.
  The field \<open>method\<close> is written \<open>method'\<close>.
\<close>

record descriptor =
  interface :: string
  method' :: string
  dateCreated :: string
  recordId :: string
  rest :: "(string \<times> string) list"

record message =
  descriptor :: descriptor
  authorization :: string

text \<open>
  The enums \<open>DwnInterfaceName\<close> and \<open>DwnMethodName\<close> are declared in
  \<open>core/message.js\<close>; the members the code below uses are given their own names as values.
\<close>

definition DwnInterfaceName_Records :: string where
  "DwnInterfaceName_Records = ''Records''"

definition DwnInterfaceName_Messages :: string where
  "DwnInterfaceName_Messages = ''Messages''"

definition DwnMethodName_Delete :: string where
  "DwnMethodName_Delete = ''Delete''"

definition DwnMethodName_Read :: string where
  "DwnMethodName_Read = ''Read''"

definition DwnMethodName_Get :: string where
  "DwnMethodName_Get = ''Get''"

definition DwnMethodName_Write :: string where
  "DwnMethodName_Write = ''Write''"

text \<open>A thrown error carries its message.\<close>

datatype error = Error string

record status =
  code :: nat
  detail :: string

record MessageReply =
  status :: status

text \<open>
  Modelled from the spec: \<open>MessageReply.fromError\<close> (\<open>core/message-reply.js\<close>) is
  not among the sources. A recovered error becomes a reply with the given numeric status
  code and the error's text as the human-readable detail.
\<close>

fun fromError :: "error \<Rightarrow> nat \<Rightarrow> MessageReply" where
  "fromError (Error e) c = \<lparr>status = \<lparr>code = c, detail = e\<rparr>\<rparr>"

section \<open>The index projection of a delete\<close>

text \<open>
  A parsed \<open>RecordsDelete\<close>: the message (field \<open>message\<close>, written \<open>message'\<close>)
  and its resolved author.
\<close>

record RecordsDelete =
  message' :: message
  author :: string

text \<open>The own properties of a descriptor object: the four named ones, then the others.\<close>

definition descriptorEntries :: "descriptor \<Rightarrow> (string \<times> string) list" where
  "descriptorEntries d =
     [(''interface'', interface d), (''method'', method' d),
      (''dateCreated'', dateCreated d), (''recordId'', recordId d)] @ rest d"

text \<open>
  \<open>constructIndexes\<close>: the object literal \<open>{ author: ..., ...descriptor }\<close>. The spread
  comes second and copies every own property of the descriptor, so a descriptor
  property named \<open>author\<close> overrides the resolved author. The literal writes no
  \<open>isLatestBaseState\<close> property of its own.
\<close>

definition constructIndexes :: "string \<Rightarrow> RecordsDelete \<Rightarrow> (string \<rightharpoonup> string)" where
  "constructIndexes tenant recordsDelete =
     [''author'' \<mapsto> author recordsDelete]
       ++ map_of (descriptorEntries (descriptor (message' recordsDelete)))"

section \<open>Conflict resolution\<close>

text \<open>
  Modelled from the spec: \<open>RecordsWrite.isNewer\<close> (\<open>messages/records-write.js\<close>) is
  not among the sources. A message strictly outranks another when its
  \<open>(dateCreated, ContentId)\<close> pair is lexicographically greater: the timestamp is the
  primary key, the content identifier breaks the tie of exactly equal timestamps.
  Strings compare as in JavaScript, code unit by code unit. The content identifier
  \<open>Message.getCid\<close> is a parameter.
\<close>

definition isNewer :: "(message \<Rightarrow> string) \<Rightarrow> message \<Rightarrow> message \<Rightarrow> bool" where
  "isNewer getCid a b \<longleftrightarrow>
     dateCreated (descriptor b) < dateCreated (descriptor a)
     \<or> (dateCreated (descriptor a) = dateCreated (descriptor b) \<and> getCid b < getCid a)"

text \<open>
  Modelled from the spec: \<open>RecordsWrite.getNewestMessage\<close>
  (\<open>messages/records-write.js\<close>) is not among the sources. It returns the element with
  the greatest \<open>(dateCreated, ContentId)\<close> pair, and \<open>undefined\<close> (\<open>None\<close>) for no
  messages: one pass that keeps the current newest and replaces it by a message that
  strictly outranks it.
\<close>

fun newestFrom :: "(message \<Rightarrow> string) \<Rightarrow> message option \<Rightarrow> message list \<Rightarrow> message option" where
  "newestFrom getCid currentNewestMessage [] = currentNewestMessage"
| "newestFrom getCid currentNewestMessage (m # ms) =
     newestFrom getCid
       (case currentNewestMessage of
          None \<Rightarrow> Some m
        | Some n \<Rightarrow> if isNewer getCid m n then Some m else Some n)
       ms"

definition getNewestMessage :: "(message \<Rightarrow> string) \<Rightarrow> message list \<Rightarrow> message option" where
  "getNewestMessage getCid messages = newestFrom getCid None messages"

text \<open>
  Lines 46 to 55 of the handler: the newest existing message, whether the incoming
  message is the newest, and the newest message overall. The result is
  \<open>(incomingMessageIsNewest, newestMessage)\<close>.
\<close>

definition resolveNewest ::
  "(message \<Rightarrow> string) \<Rightarrow> message list \<Rightarrow> message \<Rightarrow> bool \<times> message" where
  "resolveNewest getCid existingMessages message =
     (case getNewestMessage getCid existingMessages of
        None \<Rightarrow> (True, message)
      | Some newestExistingMessage \<Rightarrow>
          if isNewer getCid message newestExistingMessage then (True, message)
          else (False, newestExistingMessage))"

section \<open>The handler of record deletions\<close>

text \<open>
  The collaborators of \<open>RecordsDeleteHandler\<close> are parameters. \<open>'s\<close> is the state the
  message store, the data store and the event log hold together. Parsing,
  authentication and authorization get no store, so they return no state; each may
  throw. The store and log operations return the new state; the handler catches none of
  their failures, which are not part of this model.
\<close>

record 's collaborators =
  RecordsDelete_parse :: "message \<Rightarrow> error + RecordsDelete"
  authenticate :: "string \<Rightarrow> error + unit"
  authorize :: "RecordsDelete \<Rightarrow> string \<Rightarrow> error + unit"
  messageStore_query :: "'s \<Rightarrow> string \<Rightarrow> (string \<times> string) list \<Rightarrow> message list"
  messageStore_put :: "'s \<Rightarrow> string \<Rightarrow> message \<Rightarrow> (string \<rightharpoonup> string) \<Rightarrow> 's"
  Message_getCid :: "message \<Rightarrow> string"
  eventLog_append :: "'s \<Rightarrow> string \<Rightarrow> string \<Rightarrow> 's"
  deleteAllOlderMessagesButKeepInitialWrite ::
    "'s \<Rightarrow> string \<Rightarrow> message list \<Rightarrow> message \<Rightarrow> 's"

text \<open>The calls of the handler, recorded in the order it makes them.\<close>

datatype call =
  CallParse | CallAuthenticate | CallAuthorize | CallQuery | CallGetNewestMessage
  | CallIsNewer | CallConstructIndexes | CallPut | CallGetCid | CallAppend
  | CallDeleteAllOlderMessages

text \<open>
  Lines 38 to 83 of \<open>handle\<close>: what it does once the message is parsed and authorized.
  \<open>isNewer\<close> is called only when there is a newest existing message.
\<close>

definition admit ::
  "'s collaborators \<Rightarrow> string \<Rightarrow> message \<Rightarrow> RecordsDelete \<Rightarrow> 's
     \<Rightarrow> MessageReply \<times> call list \<times> 's" where
  "admit C tenant message recordsDelete s =
     (let query = [(''interface'', DwnInterfaceName_Records),
                   (''recordId'', recordId (descriptor message))];
          existingMessages = messageStore_query C s tenant query;
          newestExistingMessage = getNewestMessage (Message_getCid C) existingMessages;
          (incomingMessageIsNewest, newestMessage) =
            resolveNewest (Message_getCid C) existingMessages message;
          calls = [CallParse, CallAuthenticate, CallAuthorize, CallQuery, CallGetNewestMessage]
                  @ (if newestExistingMessage = None then [] else [CallIsNewer])
      in if \<not> incomingMessageIsNewest then
           (\<lparr>status = \<lparr>code = 409, detail = ''Conflict''\<rparr>\<rparr>, calls, s)
         else if (case newestExistingMessage of
                    None \<Rightarrow> True
                  | Some n \<Rightarrow> method' (descriptor n) = DwnMethodName_Delete) then
           (\<lparr>status = \<lparr>code = 404, detail = ''Not Found''\<rparr>\<rparr>, calls, s)
         else
           (let indexes = constructIndexes tenant recordsDelete;
                s1 = messageStore_put C s tenant message indexes;
                messageCid = Message_getCid C message;
                s2 = eventLog_append C s1 tenant messageCid;
                s3 = deleteAllOlderMessagesButKeepInitialWrite C s2 tenant
                       existingMessages newestMessage
            in (\<lparr>status = \<lparr>code = 202, detail = ''Accepted''\<rparr>\<rparr>,
                calls @ [CallConstructIndexes, CallPut, CallGetCid, CallAppend,
                         CallDeleteAllOlderMessages],
                s3)))"

text \<open>
  \<open>RecordsDeleteHandler.handle\<close>: the reply, the calls made and the state afterwards.
  A parse error is recovered into a 400 reply, an authentication or authorization
  error into a 401 reply.
\<close>

definition handle ::
  "'s collaborators \<Rightarrow> string \<Rightarrow> message \<Rightarrow> 's \<Rightarrow> MessageReply \<times> call list \<times> 's" where
  "handle C tenant message s =
     (case RecordsDelete_parse C message of
        Inl e \<Rightarrow> (fromError e 400, [CallParse], s)
      | Inr recordsDelete \<Rightarrow>
          (case authenticate C (authorization message) of
             Inl e \<Rightarrow> (fromError e 401, [CallParse, CallAuthenticate], s)
           | Inr _ \<Rightarrow>
               (case authorize C recordsDelete tenant of
                  Inl e \<Rightarrow> (fromError e 401, [CallParse, CallAuthenticate, CallAuthorize], s)
                | Inr _ \<Rightarrow> admit C tenant message recordsDelete s)))"

section \<open>The dispatcher\<close>

text \<open>
  A raw message as the dispatcher reads it: \<open>rawMessage?.descriptor?.interface\<close> and
  \<open>rawMessage?.descriptor?.method\<close>. \<open>None\<close> is \<open>undefined\<close>: a raw message that is
  absent, one with no descriptor, a descriptor without the property.
\<close>

record rawDescriptor =
  rawInterface :: "string option"
  rawMethod :: "string option"

record rawMessage =
  rawDescriptor :: "rawDescriptor option"

definition dwnInterfaceOf :: "rawMessage option \<Rightarrow> string option" where
  "dwnInterfaceOf rawMessage =
     (case rawMessage of
        None \<Rightarrow> None
      | Some m \<Rightarrow> (case rawDescriptor m of None \<Rightarrow> None | Some d \<Rightarrow> rawInterface d))"

definition dwnMethodOf :: "rawMessage option \<Rightarrow> string option" where
  "dwnMethodOf rawMessage =
     (case rawMessage of
        None \<Rightarrow> None
      | Some m \<Rightarrow> (case rawDescriptor m of None \<Rightarrow> None | Some d \<Rightarrow> rawMethod d))"

text \<open>A value in a template literal: \<open>undefined\<close> prints as its name.\<close>

fun template :: "string option \<Rightarrow> string" where
  "template None = ''undefined''"
| "template (Some s) = s"

text \<open>
  A method handler gets the tenant, the message and the data stream, and returns its
  reply and the new state. The tenant gate, the schema validation and the handlers are
  parameters of the node; \<open>methodHandlers\<close> is the registry, keyed by the interface name
  followed by the method name.
\<close>

type_synonym ('s, 'd) MethodHandler =
  "string \<Rightarrow> rawMessage \<Rightarrow> 'd option \<Rightarrow> 's \<Rightarrow> MessageReply \<times> 's"

record ('s, 'd) Dwn =
  methodHandlers :: "string \<Rightarrow> ('s, 'd) MethodHandler option"
  tenantGate_isTenant :: "string \<Rightarrow> bool"
  Message_validateJsonSchema :: "rawMessage option \<Rightarrow> error + unit"
  RecordsReadHandler_handle :: "string \<Rightarrow> rawMessage \<Rightarrow> 's \<Rightarrow> MessageReply \<times> 's"
  MessagesGetHandler_handle :: "string \<Rightarrow> rawMessage \<Rightarrow> 's \<Rightarrow> MessageReply \<times> 's"
  RecordsWriteHandler_handle :: "string \<Rightarrow> rawMessage \<Rightarrow> bool \<Rightarrow> 's \<Rightarrow> MessageReply \<times> 's"

definition preprocessingChecks ::
  "('s, 'd) Dwn \<Rightarrow> string \<Rightarrow> rawMessage option \<Rightarrow> string option \<Rightarrow> string option
     \<Rightarrow> MessageReply option" where
  "preprocessingChecks dwn tenant rawMessage expectedInterface expectedMethod =
     (let isTenant = tenantGate_isTenant dwn tenant
      in if \<not> isTenant then
           Some \<lparr>status = \<lparr>code = 401, detail = tenant @ '' is not a tenant''\<rparr>\<rparr>
         else
           (let dwnInterface = dwnInterfaceOf rawMessage;
                dwnMethod = dwnMethodOf rawMessage
            in if dwnInterface = None \<or> dwnMethod = None then
                 Some \<lparr>status = \<lparr>code = 400,
                   detail = ''Both interface and method must be present, interface: ''
                     @ template dwnInterface @ '', method: '' @ template dwnMethod\<rparr>\<rparr>
               else if expectedInterface \<noteq> None \<and> expectedInterface \<noteq> dwnInterface then
                 Some \<lparr>status = \<lparr>code = 400,
                   detail = ''Expected interface '' @ template expectedInterface
                     @ '', received '' @ template dwnInterface\<rparr>\<rparr>
               else if expectedMethod \<noteq> None \<and> expectedMethod \<noteq> dwnMethod then
                 Some \<lparr>status = \<lparr>code = 400,
                   detail = ''Expected method '' @ template expectedInterface
                     @ template expectedMethod @ '', received '' @ template dwnInterface
                     @ template dwnMethod\<rparr>\<rparr>
               else
                 (case Message_validateJsonSchema dwn rawMessage of
                    Inl error \<Rightarrow> Some (fromError error 400)
                  | Inr _ \<Rightarrow> None)))"

text \<open>
  \<open>rawMessage.descriptor.interface + rawMessage.descriptor.method\<close>. Reading a property
  of \<open>undefined\<close> throws a \<open>TypeError\<close>; \<open>+\<close> joins two strings, prints \<open>undefined\<close>
  beside a string, and gives \<open>NaN\<close> for two \<open>undefined\<close>.
\<close>

definition handlerKey :: "rawMessage option \<Rightarrow> error + string" where
  "handlerKey rawMessage =
     (case rawMessage of
        None \<Rightarrow> Inl (Error ''TypeError'')
      | Some m \<Rightarrow>
          (case rawDescriptor m of
             None \<Rightarrow> Inl (Error ''TypeError'')
           | Some d \<Rightarrow>
               (case (rawInterface d, rawMethod d) of
                  (None, None) \<Rightarrow> Inr ''NaN''
                | (i, m) \<Rightarrow> Inr (template i @ template m))))"

text \<open>
  \<open>processMessage\<close>: the reply and the state, or the \<open>TypeError\<close> of calling \<open>handle\<close>
  on a key the registry does not hold.
\<close>

definition processMessage ::
  "('s, 'd) Dwn \<Rightarrow> string \<Rightarrow> rawMessage option \<Rightarrow> 'd option \<Rightarrow> 's
     \<Rightarrow> error + MessageReply \<times> 's" where
  "processMessage dwn tenant rawMessage dataStream s =
     (case preprocessingChecks dwn tenant rawMessage None None of
        Some errorMessageReply \<Rightarrow> Inr (errorMessageReply, s)
      | None \<Rightarrow>
          (case handlerKey rawMessage of
             Inl e \<Rightarrow> Inl e
           | Inr key \<Rightarrow>
               (case (methodHandlers dwn key, rawMessage) of
                  (Some handler, Some m) \<Rightarrow> Inr (handler tenant m dataStream s)
                | _ \<Rightarrow> Inl (Error ''TypeError''))))"

definition handleRecordsRead ::
  "('s, 'd) Dwn \<Rightarrow> string \<Rightarrow> rawMessage \<Rightarrow> 's \<Rightarrow> MessageReply \<times> 's" where
  "handleRecordsRead dwn tenant message s =
     (case preprocessingChecks dwn tenant (Some message)
             (Some DwnInterfaceName_Records) (Some DwnMethodName_Read) of
        Some errorMessageReply \<Rightarrow> (errorMessageReply, s)
      | None \<Rightarrow> RecordsReadHandler_handle dwn tenant message s)"

definition handleMessagesGet ::
  "('s, 'd) Dwn \<Rightarrow> string \<Rightarrow> rawMessage \<Rightarrow> 's \<Rightarrow> MessageReply \<times> 's" where
  "handleMessagesGet dwn tenant message s =
     (case preprocessingChecks dwn tenant (Some message)
             (Some DwnInterfaceName_Messages) (Some DwnMethodName_Get) of
        Some errorMessageReply \<Rightarrow> (errorMessageReply, s)
      | None \<Rightarrow> MessagesGetHandler_handle dwn tenant message s)"

definition synchronizePrunedInitialRecordsWrite ::
  "('s, 'd) Dwn \<Rightarrow> string \<Rightarrow> rawMessage \<Rightarrow> 's \<Rightarrow> MessageReply \<times> 's" where
  "synchronizePrunedInitialRecordsWrite dwn tenant message s =
     (case preprocessingChecks dwn tenant (Some message)
             (Some DwnInterfaceName_Records) (Some DwnMethodName_Write) of
        Some errorMessageReply \<Rightarrow> (errorMessageReply, s)
      | None \<Rightarrow>
          (let skipDataStorage = True
           in RecordsWriteHandler_handle dwn tenant message skipDataStorage s))"

section \<open>Protocol definitions as objects\<close>

text \<open>
  \<open>normalizeDefinition\<close> copies one object and writes into others, so the objects live
  in a heap and are named by references. A reference is an index into the list of
  objects of its kind. A protocol type has an optional \<open>schema\<close>; a \<open>types\<close> object maps
  each type name to the reference of a protocol type; a definition has its \<open>protocol\<close>
  and the reference of its \<open>types\<close> object, or no \<open>types\<close> (\<open>undefined\<close>, \<open>None\<close>).
  Further properties of a protocol type or of a definition are the extension of its
  record.
\<close>

type_synonym ref = nat

record ProtocolType =
  schema :: "string option"

record ProtocolDefinition =
  protocol :: string
  types :: "ref option"

record ('t, 'd) heap =
  typeObjects :: "'t ProtocolType_scheme list"
  typesObjects :: "(string \<times> ref) list list"
  definitionObjects :: "'d ProtocolDefinition_scheme list"

text \<open>Reading a reference; a reference to no object reads \<open>undefined\<close>.\<close>

definition deref :: "'a list \<Rightarrow> ref \<Rightarrow> 'a option" where
  "deref objects r = (if r < length objects then Some (objects ! r) else None)"

text \<open>
  The loop of lines 62 to 67 over the entries of \<open>typesCopy\<close>: where a type has a schema,
  the normalized schema is written into the type object the entry refers to. The
  normalizer may throw, which ends the loop with the writes made so far.
\<close>

fun normalizeSchemas ::
  "(string \<Rightarrow> error + string) \<Rightarrow> (string \<times> ref) list \<Rightarrow> 't ProtocolType_scheme list
     \<Rightarrow> error option \<times> 't ProtocolType_scheme list" where
  "normalizeSchemas normalizeSchemaUrl [] objects = (None, objects)"
| "normalizeSchemas normalizeSchemaUrl ((typeName, r) # entries) objects =
     (case deref objects r of
        None \<Rightarrow> (Some (Error ''TypeError''), objects)
      | Some typeObject \<Rightarrow>
          (case schema typeObject of
             None \<Rightarrow> normalizeSchemas normalizeSchemaUrl entries objects
           | Some s \<Rightarrow>
               (case normalizeSchemaUrl s of
                  Inl e \<Rightarrow> (Some e, objects)
                | Inr normalized \<Rightarrow>
                    normalizeSchemas normalizeSchemaUrl entries
                      (objects[r := typeObject\<lparr>schema := Some normalized\<rparr>]))))"

text \<open>
  \<open>ProtocolsConfigure.normalizeDefinition\<close>. \<open>{ ...definition.types }\<close> allocates a new
  \<open>types\<close> object with the entries of the old one, so with the same references, and
  an empty one when \<open>definition.types\<close> is \<open>undefined\<close>; the returned object literal
  allocates a new definition. A reference to no object does not occur in a run and is
  answered with a \<open>TypeError\<close>. The result is the reference of the
  new definition, or the error thrown, and the heap afterwards. \<open>normalizeSchemaUrl\<close> and
  \<open>normalizeProtocolUrl\<close> (\<open>utils/url.js\<close>) are parameters.
\<close>

definition normalizeDefinition ::
  "(string \<Rightarrow> error + string) \<Rightarrow> (string \<Rightarrow> error + string) \<Rightarrow> ('t, 'd) heap \<Rightarrow> ref
     \<Rightarrow> (error + ref) \<times> ('t, 'd) heap" where
  "normalizeDefinition normalizeSchemaUrl normalizeProtocolUrl h definition =
     (case deref (definitionObjects h) definition of
        None \<Rightarrow> (Inl (Error ''TypeError''), h)
      | Some definitionObject \<Rightarrow>
          (case (case types definitionObject of
                   None \<Rightarrow> Some []
                 | Some r \<Rightarrow> deref (typesObjects h) r) of
             None \<Rightarrow> (Inl (Error ''TypeError''), h)
           | Some entries \<Rightarrow>
               (let typesCopy = length (typesObjects h);
                    h1 = h\<lparr>typesObjects := typesObjects h @ [entries]\<rparr>;
                    (thrown, objects) = normalizeSchemas normalizeSchemaUrl entries (typeObjects h1);
                    h2 = h1\<lparr>typeObjects := objects\<rparr>
                in case thrown of
                     Some e \<Rightarrow> (Inl e, h2)
                   | None \<Rightarrow>
                       (case normalizeProtocolUrl (protocol definitionObject) of
                          Inl e \<Rightarrow> (Inl e, h2)
                        | Inr normalized \<Rightarrow>
                            (Inr (length (definitionObjects h2)),
                             h2\<lparr>definitionObjects := definitionObjects h2
                                  @ [definitionObject\<lparr>protocol := normalized,
                                                      types := Some typesCopy\<rparr>]\<rparr>)))))"

section \<open>Hierarchical key derivation\<close>

datatype KeyDerivationScheme = DataFormats | Protocols | Schemas

record 'k DerivedPrivateJwk =
  rootKeyId :: string
  derivationScheme :: KeyDerivationScheme
  derivationPath :: "string list option"
  derivedPrivateKey :: 'k

text \<open>
  The three \<open>Secp256k1\<close> operations (\<open>utils/secp256k1.js\<close>) are parameters. Each may
  throw; bytes are natural numbers below 256, and \<open>'k\<close> is the type of a private JWK.
\<close>

record 'k Secp256k1 =
  privateJwkToBytes :: "'k \<Rightarrow> error + nat list"
  secpDerivePrivateKey :: "nat list \<Rightarrow> string list \<Rightarrow> error + nat list"
  privateKeyToJwk :: "nat list \<Rightarrow> error + 'k"

definition derivePrivateKey ::
  "'k Secp256k1 \<Rightarrow> 'k DerivedPrivateJwk \<Rightarrow> string list \<Rightarrow> error + 'k DerivedPrivateJwk" where
  "derivePrivateKey S ancestorKey subDerivationPath =
     (case privateJwkToBytes S (derivedPrivateKey ancestorKey) of
        Inl e \<Rightarrow> Inl e
      | Inr ancestorPrivateKey \<Rightarrow>
          let ancestorPrivateKeyDerivationPath =
                (case derivationPath ancestorKey of None \<Rightarrow> [] | Some p \<Rightarrow> p)
          in (case secpDerivePrivateKey S ancestorPrivateKey subDerivationPath of
                Inl e \<Rightarrow> Inl e
              | Inr derivedPrivateKeyBytes \<Rightarrow>
                  (case privateKeyToJwk S derivedPrivateKeyBytes of
                     Inl e \<Rightarrow> Inl e
                   | Inr derivedPrivateJwk \<Rightarrow>
                       Inr \<lparr>rootKeyId = rootKeyId ancestorKey,
                            derivationScheme = derivationScheme ancestorKey,
                            derivationPath =
                              Some (ancestorPrivateKeyDerivationPath @ subDerivationPath),
                            derivedPrivateKey = derivedPrivateJwk\<rparr>)))"

section \<open>Example inputs\<close>

text \<open>
  An in-memory instance of the collaborators, on which the theorems are run on concrete
  inputs. The state is the list of stored messages and the event log. Parsing takes the
  signer from the authorization; the owner of a record is the tenant. Pruning keeps the
  newest message and the first stored one.
\<close>

definition exampleCollaborators :: "(message list \<times> string list) collaborators" where
  "exampleCollaborators =
     \<lparr>RecordsDelete_parse = (\<lambda>m. if recordId (descriptor m) = [] then Inl (Error ''recordId is empty'')
                                 else Inr \<lparr>message' = m, author = authorization m\<rparr>),
      authenticate = (\<lambda>a. if a = [] then Inl (Error ''no signature'') else Inr ()),
      authorize = (\<lambda>rd tenant. if author rd = tenant then Inr () else Inl (Error ''not the owner'')),
      messageStore_query = (\<lambda>s tenant q.
         filter (\<lambda>m. map_of q ''interface'' = Some (interface (descriptor m))
                     \<and> map_of q ''recordId'' = Some (recordId (descriptor m))) (fst s)),
      messageStore_put = (\<lambda>s tenant m indexes. (fst s @ [m], snd s)),
      Message_getCid = (\<lambda>m. method' (descriptor m) @ dateCreated (descriptor m) @ authorization m),
      eventLog_append = (\<lambda>s tenant cid. (fst s, snd s @ [cid])),
      deleteAllOlderMessagesButKeepInitialWrite = (\<lambda>s tenant existing newest.
         (filter (\<lambda>m. m \<notin> set existing \<or> m = newest \<or> m \<in> set (take 1 existing)) (fst s), snd s))\<rparr>"

definition exampleMessage :: "string \<Rightarrow> string \<Rightarrow> message" where
  "exampleMessage m t =
     \<lparr>descriptor = \<lparr>interface = ''Records'', method' = m, dateCreated = t, recordId = ''r1'',
                    rest = []\<rparr>,
      authorization = ''alice''\<rparr>"

definition exampleWrite :: message where
  "exampleWrite = exampleMessage ''Write'' ''2023-01-01''"

definition exampleDelete :: message where
  "exampleDelete = exampleMessage ''Delete'' ''2023-01-02''"

definition exampleLaterDelete :: message where
  "exampleLaterDelete = exampleMessage ''Delete'' ''2023-01-03''"

definition exampleTie :: message where
  "exampleTie = exampleWrite\<lparr>authorization := ''bob''\<rparr>"



text \<open>
  A node with one registered handler, which counts its calls in the state; a heap with
  one definition of one type; a stand-in for the URL normalizers, which puts the scheme
  before a URL that has none; stand-ins for the \<open>Secp256k1\<close> operations.
\<close>

definition exampleDwn :: "(nat, unit) Dwn" where
  "exampleDwn =
     \<lparr>methodHandlers = (\<lambda>key. if key = ''RecordsDelete''
         then Some (\<lambda>tenant m dataStream s.
                 (\<lparr>status = \<lparr>code = 202, detail = ''Accepted''\<rparr>\<rparr>, Suc s))
         else None),
      tenantGate_isTenant = (\<lambda>tenant. tenant = ''alice''),
      Message_validateJsonSchema = (\<lambda>m. Inr ()),
      RecordsReadHandler_handle = (\<lambda>tenant m s. (\<lparr>status = \<lparr>code = 200, detail = ''OK''\<rparr>\<rparr>, Suc s)),
      MessagesGetHandler_handle = (\<lambda>tenant m s. (\<lparr>status = \<lparr>code = 200, detail = ''OK''\<rparr>\<rparr>, Suc s)),
      RecordsWriteHandler_handle =
        (\<lambda>tenant m skipDataStorage s. (\<lparr>status = \<lparr>code = 202, detail = ''Accepted''\<rparr>\<rparr>, Suc s))\<rparr>"

definition exampleRaw :: "string option \<Rightarrow> string option \<Rightarrow> rawMessage" where
  "exampleRaw i m = \<lparr>rawDescriptor = Some \<lparr>rawInterface = i, rawMethod = m\<rparr>\<rparr>"

definition exampleHeap :: "(unit, unit) heap" where
  "exampleHeap =
     \<lparr>typeObjects = [\<lparr>schema = Some ''example.com/note''\<rparr>],
      typesObjects = [[(''note'', 0)]],
      definitionObjects = [\<lparr>protocol = ''example.com/protocol'', types = Some 0\<rparr>]\<rparr>"

definition exampleNormalizeUrl :: "string \<Rightarrow> error + string" where
  "exampleNormalizeUrl url = Inr (''http://'' @ url)"

definition exampleSecp256k1 :: "(nat list) Secp256k1" where
  "exampleSecp256k1 =
     \<lparr>privateJwkToBytes = (\<lambda>jwk. if jwk = [] then Inl (Error ''no key'') else Inr jwk),
      secpDerivePrivateKey = (\<lambda>key path. Inr (key @ map length path)),
      privateKeyToJwk = (\<lambda>bytes. Inr bytes)\<rparr>"

definition exampleAncestorKey :: "(nat list) DerivedPrivateJwk" where
  "exampleAncestorKey =
     \<lparr>rootKeyId = ''root'', derivationScheme = Protocols, derivationPath = None,
      derivedPrivateKey = [1, 2, 3]\<rparr>"

section \<open>Facts about the ordering and the handler\<close>

lemma isNewer_irrefl: "\<not> isNewer c a a"
  by (simp add: isNewer_def)

lemma isNewer_same_key:
  "c a = c b \<Longrightarrow> dateCreated (descriptor a) = dateCreated (descriptor b) \<Longrightarrow> isNewer c a n = isNewer c b n"
  by (simp add: isNewer_def)

lemma not_isNewer_trans:
  "\<not> isNewer c x y \<Longrightarrow> \<not> isNewer c y z \<Longrightarrow> \<not> isNewer c x z"
  by (auto simp: isNewer_def)

lemma newestFrom_Some: "newestFrom c (Some n) ms \<noteq> None"
  by (induction ms arbitrary: n) auto

lemma getNewestMessage_Nil: "getNewestMessage c [] = None"
  by (simp add: getNewestMessage_def)

lemma getNewestMessage_None: "getNewestMessage c ms = None \<longleftrightarrow> ms = []"
  by (cases ms) (simp_all add: getNewestMessage_def newestFrom_Some)

lemma newestFrom_mem: "newestFrom c cur ms = Some n \<Longrightarrow> n \<in> set ms \<or> cur = Some n"
  by (induction ms arbitrary: cur) (fastforce split: option.splits if_splits)+

lemma newestFrom_max:
  "newestFrom c cur ms = Some n \<Longrightarrow>
     (\<forall>x\<in>set ms. \<not> isNewer c x n) \<and> (\<forall>y. cur = Some y \<longrightarrow> \<not> isNewer c y n)"
proof (induction ms arbitrary: cur)
  case Nil
  then show ?case by (simp add: isNewer_irrefl)
next
  case (Cons m ms)
  let ?cur' = "case cur of None \<Rightarrow> Some m | Some k \<Rightarrow> if isNewer c m k then Some m else Some k"
  from Cons.prems have run: "newestFrom c ?cur' ms = Some n" by simp
  from Cons.IH [OF run] have tail: "\<forall>x\<in>set ms. \<not> isNewer c x n"
    and cur': "\<forall>y. ?cur' = Some y \<longrightarrow> \<not> isNewer c y n" by blast+
  show ?case
  proof (cases cur)
    case None
    with cur' have "\<not> isNewer c m n" by simp
    with tail None show ?thesis by simp
  next
    case (Some k)
    show ?thesis
    proof (cases "isNewer c m k")
      case True
      with cur' Some have mn: "\<not> isNewer c m n" by simp
      from True have km: "\<not> isNewer c k m" by (auto simp: isNewer_def)
      have "\<not> isNewer c k n" by (rule not_isNewer_trans [OF km mn])
      with mn tail Some show ?thesis by simp
    next
      case False
      with cur' Some have kn: "\<not> isNewer c k n" by simp
      have "\<not> isNewer c m n" by (rule not_isNewer_trans [OF False kn])
      with kn tail Some show ?thesis by simp
    qed
  qed
qed

lemma getNewestMessage_max:
  "getNewestMessage c ms = Some n \<Longrightarrow> n \<in> set ms \<and> (\<forall>x\<in>set ms. \<not> isNewer c x n)"
  using newestFrom_mem [of c None ms n] newestFrom_max [of c None ms n]
  by (simp add: getNewestMessage_def)


lemma handle_admit:
  "RecordsDelete_parse C message = Inr rd \<Longrightarrow> authenticate C (authorization message) = Inr u
   \<Longrightarrow> authorize C rd tenant = Inr v \<Longrightarrow> handle C tenant message s = admit C tenant message rd s"
  by (simp add: handle_def)

lemma admit_code:
  "code (status (fst (admit C tenant message rd s))) =
     (let existing = messageStore_query C s tenant
            [(''interface'', DwnInterfaceName_Records), (''recordId'', recordId (descriptor message))];
          newest = getNewestMessage (Message_getCid C) existing
      in if \<not> fst (resolveNewest (Message_getCid C) existing message) then 409
         else if (case newest of None \<Rightarrow> True | Some n \<Rightarrow> method' (descriptor n) = DwnMethodName_Delete)
         then 404 else 202)"
  by (simp add: admit_def Let_def split: prod.splits)

lemma resolveNewest_fst:
  "fst (resolveNewest c existing message) \<longleftrightarrow>
     existing = [] \<or> (\<exists>n. getNewestMessage c existing = Some n \<and> isNewer c message n)"
  by (cases "getNewestMessage c existing")
     (auto simp: resolveNewest_def getNewestMessage_None getNewestMessage_Nil)

lemma admit_reject_state:
  "admit C tenant message rd s = (reply, calls, s') \<Longrightarrow> code (status reply) \<noteq> 202 \<Longrightarrow>
     code (status reply) \<in> {404, 409} \<and> s' = s
     \<and> calls = [CallParse, CallAuthenticate, CallAuthorize, CallQuery, CallGetNewestMessage]
                @ (if getNewestMessage (Message_getCid C)
                        (messageStore_query C s tenant
                           [(''interface'', DwnInterfaceName_Records),
                            (''recordId'', recordId (descriptor message))]) = None
                   then [] else [CallIsNewer])"
  by (auto simp: admit_def Let_def split: prod.splits if_splits)

lemma admit_accept:
  "admit C tenant message rd s = (reply, calls, s') \<Longrightarrow> code (status reply) = 202 \<Longrightarrow>
     calls = [CallParse, CallAuthenticate, CallAuthorize, CallQuery, CallGetNewestMessage,
              CallIsNewer, CallConstructIndexes, CallPut, CallGetCid, CallAppend,
              CallDeleteAllOlderMessages]
     \<and> s' = deleteAllOlderMessagesButKeepInitialWrite C
              (eventLog_append C
                 (messageStore_put C s tenant message (constructIndexes tenant rd))
                 tenant (Message_getCid C message))
              tenant
              (messageStore_query C s tenant
                 [(''interface'', DwnInterfaceName_Records),
                  (''recordId'', recordId (descriptor message))])
              message
     \<and> resolveNewest (Message_getCid C)
           (messageStore_query C s tenant
              [(''interface'', DwnInterfaceName_Records),
               (''recordId'', recordId (descriptor message))]) message = (True, message)
     \<and> (\<exists>n. getNewestMessage (Message_getCid C)
                (messageStore_query C s tenant
                   [(''interface'', DwnInterfaceName_Records),
                    (''recordId'', recordId (descriptor message))]) = Some n
             \<and> isNewer (Message_getCid C) message n
             \<and> method' (descriptor n) \<noteq> DwnMethodName_Delete)"
  by (auto simp: admit_def Let_def resolveNewest_def split: prod.splits if_splits option.splits)


lemma fromError_code: "code (status (fromError e c)) = c"
  by (cases e) simp

lemma handle_cases:
  assumes "handle C tenant message s = (reply, calls, s')"
  shows "(\<exists>e. RecordsDelete_parse C message = Inl e \<and> reply = fromError e 400
               \<and> calls = [CallParse] \<and> s' = s)
         \<or> (\<exists>rd e. RecordsDelete_parse C message = Inr rd
               \<and> authenticate C (authorization message) = Inl e \<and> reply = fromError e 401
               \<and> calls = [CallParse, CallAuthenticate] \<and> s' = s)
         \<or> (\<exists>rd e. RecordsDelete_parse C message = Inr rd
               \<and> authenticate C (authorization message) = Inr ()
               \<and> authorize C rd tenant = Inl e \<and> reply = fromError e 401
               \<and> calls = [CallParse, CallAuthenticate, CallAuthorize] \<and> s' = s)
         \<or> (\<exists>rd. RecordsDelete_parse C message = Inr rd
               \<and> authenticate C (authorization message) = Inr ()
               \<and> authorize C rd tenant = Inr ()
               \<and> admit C tenant message rd s = (reply, calls, s'))"
  using assms by (auto simp: handle_def split: sum.splits)

lemmas example_defs =
  exampleCollaborators_def exampleMessage_def exampleWrite_def exampleDelete_def
  exampleLaterDelete_def DwnInterfaceName_Records_def DwnMethodName_Delete_def

lemmas run_defs =
  handle_def admit_def resolveNewest_def getNewestMessage_def isNewer_def Let_def

lemma example_parse:
  "RecordsDelete_parse exampleCollaborators exampleDelete
     = Inr \<lparr>message' = exampleDelete, author = ''alice''\<rparr>"
  by (simp add: example_defs)

lemma example_authenticate:
  "authenticate exampleCollaborators (authorization exampleDelete) = Inr ()"
  by (simp add: example_defs)

lemma example_authorize:
  "authorize exampleCollaborators \<lparr>message' = exampleDelete, author = ''alice''\<rparr> ''alice'' = Inr ()"
  by (simp add: example_defs)

lemma example_accept:
  "handle exampleCollaborators ''alice'' exampleDelete ([exampleWrite], [])
     = (\<lparr>status = \<lparr>code = 202, detail = ''Accepted''\<rparr>\<rparr>,
        [CallParse, CallAuthenticate, CallAuthorize, CallQuery, CallGetNewestMessage,
         CallIsNewer, CallConstructIndexes, CallPut, CallGetCid, CallAppend,
         CallDeleteAllOlderMessages],
        ([exampleWrite, exampleDelete], [''Delete2023-01-02alice'']))"
  by (simp add: run_defs example_defs)

lemma example_replay:
  "handle exampleCollaborators ''alice'' exampleDelete
     ([exampleWrite, exampleDelete], [''Delete2023-01-02alice''])
     = (\<lparr>status = \<lparr>code = 409, detail = ''Conflict''\<rparr>\<rparr>,
        [CallParse, CallAuthenticate, CallAuthorize, CallQuery, CallGetNewestMessage,
         CallIsNewer],
        ([exampleWrite, exampleDelete], [''Delete2023-01-02alice'']))"
  by (simp add: run_defs example_defs)

lemma example_unauthorized:
  "handle exampleCollaborators ''bob'' exampleDelete ([exampleWrite], [])
     = (\<lparr>status = \<lparr>code = 401, detail = ''not the owner''\<rparr>\<rparr>,
        [CallParse, CallAuthenticate, CallAuthorize], ([exampleWrite], []))"
  by (simp add: run_defs example_defs)

lemma preprocessingChecks_code:
  "preprocessingChecks dwn tenant raw ei em = Some r \<Longrightarrow>
     code (status r) = (if tenantGate_isTenant dwn tenant then 400 else 401)"
  by (auto simp: preprocessingChecks_def Let_def fromError_code split: if_splits sum.splits)

lemma preprocessingChecks_None:
  "preprocessingChecks dwn tenant raw ei em = None \<longleftrightarrow>
     tenantGate_isTenant dwn tenant
     \<and> (\<exists>i m. dwnInterfaceOf raw = Some i \<and> dwnMethodOf raw = Some m
            \<and> (ei = None \<or> ei = Some i) \<and> (em = None \<or> em = Some m))
     \<and> (\<exists>u. Message_validateJsonSchema dwn raw = Inr u)"
  by (auto simp: preprocessingChecks_def Let_def split: if_splits sum.splits)

lemma preprocessingChecks_handlers:
  "preprocessingChecks (dwn\<lparr>methodHandlers := H\<rparr>) t raw ei em
     = preprocessingChecks dwn t raw ei em"
  "preprocessingChecks (dwn\<lparr>RecordsReadHandler_handle := h\<rparr>) t raw ei em
     = preprocessingChecks dwn t raw ei em"
  "preprocessingChecks (dwn\<lparr>MessagesGetHandler_handle := h\<rparr>) t raw ei em
     = preprocessingChecks dwn t raw ei em"
  "preprocessingChecks (dwn\<lparr>RecordsWriteHandler_handle := g\<rparr>) t raw ei em
     = preprocessingChecks dwn t raw ei em"
  by (simp_all add: preprocessingChecks_def Let_def)

section \<open>Theorems\<close>

text \<open>
  C1, as amended. For a RecordsDelete that parses and is authenticated and authorized:
  if no message exists for the record, or the newest existing message is a delete that
  the incoming message strictly outranks, the reply is 404 Not Found and the state is
  unchanged; if the newest existing message is a delete that the incoming message does
  not outrank, the reply is 409 Conflict and the state is unchanged.
\<close>

theorem delete_not_found:
  assumes "RecordsDelete_parse C message = Inr rd"
    and "authenticate C (authorization message) = Inr ()"
    and "authorize C rd tenant = Inr ()"
  shows "((messageStore_query C s tenant
             [(''interface'', DwnInterfaceName_Records),
              (''recordId'', recordId (descriptor message))] = []
           \<or> (\<exists>n. getNewestMessage (Message_getCid C)
                     (messageStore_query C s tenant
                        [(''interface'', DwnInterfaceName_Records),
                         (''recordId'', recordId (descriptor message))]) = Some n
                   \<and> method' (descriptor n) = DwnMethodName_Delete
                   \<and> isNewer (Message_getCid C) message n))
          \<longrightarrow> fst (handle C tenant message s) = \<lparr>status = \<lparr>code = 404, detail = ''Not Found''\<rparr>\<rparr>
              \<and> snd (snd (handle C tenant message s)) = s)
         \<and> ((\<exists>n. getNewestMessage (Message_getCid C)
                     (messageStore_query C s tenant
                        [(''interface'', DwnInterfaceName_Records),
                         (''recordId'', recordId (descriptor message))]) = Some n
                   \<and> method' (descriptor n) = DwnMethodName_Delete
                   \<and> \<not> isNewer (Message_getCid C) message n)
          \<longrightarrow> fst (handle C tenant message s) = \<lparr>status = \<lparr>code = 409, detail = ''Conflict''\<rparr>\<rparr>
              \<and> snd (snd (handle C tenant message s)) = s)"
proof -
  have "handle C tenant message s = admit C tenant message rd s"
    using assms by (rule handle_admit)
  then show ?thesis
    by (auto simp: admit_def Let_def resolveNewest_def getNewestMessage_Nil
             split: prod.splits option.splits if_splits)
qed

text \<open>
  C1 as stated fails: the conflict check comes before the not-found check. With a write
  and a later delete stored, the newest existing message is a delete, and an older delete
  for the same record, or the stored delete sent again, is answered 409, not 404.
\<close>

theorem delete_not_found_counterexample:
  "getNewestMessage (Message_getCid exampleCollaborators)
     (messageStore_query exampleCollaborators ([exampleWrite, exampleLaterDelete], []) ''alice''
        [(''interface'', DwnInterfaceName_Records),
         (''recordId'', recordId (descriptor exampleDelete))]) = Some exampleLaterDelete
   \<and> method' (descriptor exampleLaterDelete) = DwnMethodName_Delete
   \<and> fst (handle exampleCollaborators ''alice'' exampleDelete
            ([exampleWrite, exampleLaterDelete], []))
       = \<lparr>status = \<lparr>code = 409, detail = ''Conflict''\<rparr>\<rparr>
   \<and> fst (handle exampleCollaborators ''alice'' exampleLaterDelete
            ([exampleWrite, exampleLaterDelete], []))
       = \<lparr>status = \<lparr>code = 409, detail = ''Conflict''\<rparr>\<rparr>"
  by (simp add: run_defs example_defs)

text \<open>
  The amended C1 on concrete inputs: a delete of a record with no message, a delete that
  outranks a stored delete, and a delete that does not.
\<close>

theorem delete_not_found_witness:
  "fst (handle exampleCollaborators ''alice'' exampleDelete ([], []))
     = \<lparr>status = \<lparr>code = 404, detail = ''Not Found''\<rparr>\<rparr>
   \<and> fst (handle exampleCollaborators ''alice'' exampleLaterDelete
            ([exampleWrite, exampleDelete], []))
       = \<lparr>status = \<lparr>code = 404, detail = ''Not Found''\<rparr>\<rparr>
   \<and> fst (handle exampleCollaborators ''alice'' exampleDelete
            ([exampleWrite, exampleLaterDelete], []))
       = \<lparr>status = \<lparr>code = 409, detail = ''Conflict''\<rparr>\<rparr>"
proof -
  have p1: "RecordsDelete_parse exampleCollaborators exampleDelete
              = Inr \<lparr>message' = exampleDelete, author = ''alice''\<rparr>"
    and p2: "RecordsDelete_parse exampleCollaborators exampleLaterDelete
              = Inr \<lparr>message' = exampleLaterDelete, author = ''alice''\<rparr>"
    and a1: "authenticate exampleCollaborators (authorization exampleDelete) = Inr ()"
    and a2: "authenticate exampleCollaborators (authorization exampleLaterDelete) = Inr ()"
    and z1: "authorize exampleCollaborators \<lparr>message' = exampleDelete, author = ''alice''\<rparr> ''alice''
              = Inr ()"
    and z2: "authorize exampleCollaborators \<lparr>message' = exampleLaterDelete, author = ''alice''\<rparr>
               ''alice'' = Inr ()"
    by (simp_all add: example_defs)
  have e1: "messageStore_query exampleCollaborators ([], []) ''alice''
              [(''interface'', DwnInterfaceName_Records),
               (''recordId'', recordId (descriptor exampleDelete))] = []"
    by (simp add: example_defs)
  have e2: "\<exists>n. getNewestMessage (Message_getCid exampleCollaborators)
                 (messageStore_query exampleCollaborators ([exampleWrite, exampleDelete], [])
                    ''alice''
                    [(''interface'', DwnInterfaceName_Records),
                     (''recordId'', recordId (descriptor exampleLaterDelete))]) = Some n
               \<and> method' (descriptor n) = DwnMethodName_Delete
               \<and> isNewer (Message_getCid exampleCollaborators) exampleLaterDelete n"
    by (simp add: run_defs example_defs)
  have e3: "\<exists>n. getNewestMessage (Message_getCid exampleCollaborators)
                 (messageStore_query exampleCollaborators ([exampleWrite, exampleLaterDelete], [])
                    ''alice''
                    [(''interface'', DwnInterfaceName_Records),
                     (''recordId'', recordId (descriptor exampleDelete))]) = Some n
               \<and> method' (descriptor n) = DwnMethodName_Delete
               \<and> \<not> isNewer (Message_getCid exampleCollaborators) exampleDelete n"
    by (simp add: run_defs example_defs)
  from delete_not_found [OF p1 a1 z1, of "([], [])"] e1
       delete_not_found [OF p2 a2 z2, of "([exampleWrite, exampleDelete], [])"] e2
       delete_not_found [OF p1 a1 z1, of "([exampleWrite, exampleLaterDelete], [])"] e3
  show ?thesis by blast
qed


text \<open>
  C2. Once the message is parsed and authorized, the handler takes the incoming message
  as the newest if and only if no message exists for the record or the incoming message
  strictly outranks the newest existing one in the \<open>(dateCreated, ContentId)\<close> order;
  it replies 409 Conflict exactly when that is not so.
\<close>

theorem conflict_check_iff:
  assumes "RecordsDelete_parse C message = Inr rd"
    and "authenticate C (authorization message) = Inr ()"
    and "authorize C rd tenant = Inr ()"
  shows "(fst (resolveNewest (Message_getCid C)
                 (messageStore_query C s tenant
                    [(''interface'', DwnInterfaceName_Records),
                     (''recordId'', recordId (descriptor message))]) message)
          \<longleftrightarrow> messageStore_query C s tenant
                    [(''interface'', DwnInterfaceName_Records),
                     (''recordId'', recordId (descriptor message))] = []
              \<or> (\<exists>n. getNewestMessage (Message_getCid C)
                        (messageStore_query C s tenant
                           [(''interface'', DwnInterfaceName_Records),
                            (''recordId'', recordId (descriptor message))]) = Some n
                      \<and> isNewer (Message_getCid C) message n))
         \<and> (code (status (fst (handle C tenant message s))) = 409
              \<longleftrightarrow> \<not> fst (resolveNewest (Message_getCid C)
                          (messageStore_query C s tenant
                             [(''interface'', DwnInterfaceName_Records),
                              (''recordId'', recordId (descriptor message))]) message))"
proof -
  have "handle C tenant message s = admit C tenant message rd s"
    using assms by (rule handle_admit)
  then show ?thesis
    by (simp add: admit_code resolveNewest_fst Let_def split: option.splits)
qed


text \<open>
  C2 on concrete inputs: a delete newer than the stored write passes the conflict
  check, a delete older than a stored delete is answered 409.
\<close>

theorem conflict_check_iff_witness:
  "fst (resolveNewest (Message_getCid exampleCollaborators)
          (messageStore_query exampleCollaborators ([exampleWrite], []) ''alice''
             [(''interface'', DwnInterfaceName_Records),
              (''recordId'', recordId (descriptor exampleDelete))]) exampleDelete)
   \<and> code (status (fst (handle exampleCollaborators ''alice'' exampleDelete
                          ([exampleWrite], [])))) \<noteq> 409
   \<and> code (status (fst (handle exampleCollaborators ''alice'' exampleDelete
                          ([exampleWrite, exampleLaterDelete], [])))) = 409"
proof -
  have outranks: "\<exists>n. getNewestMessage (Message_getCid exampleCollaborators)
         (messageStore_query exampleCollaborators ([exampleWrite], []) ''alice''
            [(''interface'', DwnInterfaceName_Records),
             (''recordId'', recordId (descriptor exampleDelete))]) = Some n
       \<and> isNewer (Message_getCid exampleCollaborators) exampleDelete n"
    by (simp add: run_defs example_defs)
  have nonempty: "messageStore_query exampleCollaborators
         ([exampleWrite, exampleLaterDelete], []) ''alice''
         [(''interface'', DwnInterfaceName_Records),
          (''recordId'', recordId (descriptor exampleDelete))] \<noteq> []"
    by (simp add: example_defs)
  have older: "\<not> (\<exists>n. getNewestMessage (Message_getCid exampleCollaborators)
         (messageStore_query exampleCollaborators ([exampleWrite, exampleLaterDelete], [])
            ''alice''
            [(''interface'', DwnInterfaceName_Records),
             (''recordId'', recordId (descriptor exampleDelete))]) = Some n
       \<and> isNewer (Message_getCid exampleCollaborators) exampleDelete n)"
    by (simp add: run_defs example_defs)
  from conflict_check_iff [OF example_parse example_authenticate example_authorize,
         of "([exampleWrite], [])"] outranks
       conflict_check_iff [OF example_parse example_authenticate example_authorize,
         of "([exampleWrite, exampleLaterDelete], [])"] nonempty older
  show ?thesis by blast
qed

text \<open>
  C3. Whenever the handler does not accept (the reply is not 202), the reply is 400,
  401, 404 or 409, the state of the stores and the log is the state before, and no
  \<open>messageStore.put\<close>, \<open>eventLog.append\<close> or pruning call was made.
\<close>

theorem handle_rejection_no_effect:
  assumes run: "handle C tenant message s = (reply, calls, s')"
    and rejected: "code (status reply) \<noteq> 202"
  shows "code (status reply) \<in> {400, 401, 404, 409} \<and> s' = s
         \<and> CallPut \<notin> set calls \<and> CallAppend \<notin> set calls
         \<and> CallDeleteAllOlderMessages \<notin> set calls"
  using handle_cases [OF run]
proof (elim disjE exE conjE)
  fix rd assume "admit C tenant message rd s = (reply, calls, s')"
  from admit_reject_state [OF this rejected] show ?thesis
    by (auto split: if_splits)
qed (simp_all add: fromError_code)

text \<open>
  C3 on concrete inputs: a conflicting delete and an unauthorized delete.
\<close>

theorem handle_rejection_no_effect_witness:
  "snd (snd (handle exampleCollaborators ''alice'' exampleDelete
               ([exampleWrite, exampleDelete], [''Delete2023-01-02alice''])))
     = ([exampleWrite, exampleDelete], [''Delete2023-01-02alice''])
   \<and> snd (snd (handle exampleCollaborators ''bob'' exampleDelete ([exampleWrite], [])))
     = ([exampleWrite], [])
   \<and> CallPut \<notin> set (fst (snd (handle exampleCollaborators ''bob'' exampleDelete
                                  ([exampleWrite], []))))"
  using handle_rejection_no_effect [OF example_replay] handle_rejection_no_effect [OF example_unauthorized]
  by (simp add: example_replay example_unauthorized)

text \<open>
  C4. For two messages with distinct \<open>(dateCreated, ContentId)\<close> pairs, the comparison
  of the handler selects the same newest message whichever of the two is the existing
  one and whichever the incoming one: the one with the later timestamp, and for equal
  timestamps the one with the greater content identifier.
\<close>

theorem resolve_deterministic:
  assumes "(dateCreated (descriptor A), c A) \<noteq> (dateCreated (descriptor B), c B)"
  shows "snd (resolveNewest c [A] B) = snd (resolveNewest c [B] A)
         \<and> snd (resolveNewest c [A] B)
             = (if dateCreated (descriptor A) < dateCreated (descriptor B)
                   \<or> (dateCreated (descriptor A) = dateCreated (descriptor B) \<and> c A < c B)
                then B else A)"
  using assms
  by (auto simp: resolveNewest_def getNewestMessage_def isNewer_def)

text \<open>
  C4 on concrete inputs: two writes with the same timestamp, and a write and a later
  delete, each resolved in both orders.
\<close>

theorem resolve_deterministic_witness:
  "snd (resolveNewest (Message_getCid exampleCollaborators) [exampleWrite] exampleTie) = exampleTie
   \<and> snd (resolveNewest (Message_getCid exampleCollaborators) [exampleTie] exampleWrite) = exampleTie
   \<and> snd (resolveNewest (Message_getCid exampleCollaborators) [exampleWrite] exampleDelete)
       = exampleDelete
   \<and> snd (resolveNewest (Message_getCid exampleCollaborators) [exampleDelete] exampleWrite)
       = exampleDelete"
proof -
  have d1: "(dateCreated (descriptor exampleWrite), Message_getCid exampleCollaborators exampleWrite)
            \<noteq> (dateCreated (descriptor exampleTie), Message_getCid exampleCollaborators exampleTie)"
    and d2: "(dateCreated (descriptor exampleWrite), Message_getCid exampleCollaborators exampleWrite)
            \<noteq> (dateCreated (descriptor exampleDelete),
                Message_getCid exampleCollaborators exampleDelete)"
    by (simp_all add: example_defs exampleTie_def)
  have t1: "dateCreated (descriptor exampleWrite) < dateCreated (descriptor exampleTie)
            \<or> (dateCreated (descriptor exampleWrite) = dateCreated (descriptor exampleTie)
                \<and> Message_getCid exampleCollaborators exampleWrite
                    < Message_getCid exampleCollaborators exampleTie)"
    and t2: "dateCreated (descriptor exampleWrite) < dateCreated (descriptor exampleDelete)
            \<or> (dateCreated (descriptor exampleWrite) = dateCreated (descriptor exampleDelete)
                \<and> Message_getCid exampleCollaborators exampleWrite
                    < Message_getCid exampleCollaborators exampleDelete)"
    by (simp_all add: example_defs exampleTie_def)
  from resolve_deterministic [OF d1] t1 have "snd
     (resolveNewest (Message_getCid exampleCollaborators) [exampleTie] exampleWrite) = exampleTie
     \<and> snd (resolveNewest (Message_getCid exampleCollaborators) [exampleWrite] exampleTie)
         = exampleTie"
    by (auto split: if_splits)
  moreover from resolve_deterministic [OF d2] t2 have "snd
     (resolveNewest (Message_getCid exampleCollaborators) [exampleDelete] exampleWrite)
       = exampleDelete
     \<and> snd (resolveNewest (Message_getCid exampleCollaborators) [exampleWrite] exampleDelete)
         = exampleDelete"
    by (auto split: if_splits)
  ultimately show ?thesis by blast
qed

text \<open>
  C5. If a stored message of the record has the content identifier and the timestamp
  of the incoming message (the same message admitted again), the handler does not accept:
  the reply is 400, 401 or 409, the state is unchanged, nothing is appended to the event
  log, and the newest message of the record is still one the incoming message does not
  outrank.
\<close>

theorem replay_not_admitted:
  assumes stored: "m \<in> set (messageStore_query C s tenant
                      [(''interface'', DwnInterfaceName_Records),
                       (''recordId'', recordId (descriptor message))])"
    and same_cid: "Message_getCid C m = Message_getCid C message"
    and same_date: "dateCreated (descriptor m) = dateCreated (descriptor message)"
    and run: "handle C tenant message s = (reply, calls, s')"
  shows "code (status reply) \<in> {400, 401, 409} \<and> s' = s
         \<and> CallPut \<notin> set calls \<and> CallAppend \<notin> set calls
         \<and> CallDeleteAllOlderMessages \<notin> set calls
         \<and> (\<exists>n. getNewestMessage (Message_getCid C)
                    (messageStore_query C s' tenant
                       [(''interface'', DwnInterfaceName_Records),
                        (''recordId'', recordId (descriptor message))]) = Some n
                 \<and> \<not> isNewer (Message_getCid C) message n)"
proof -
  let ?existing = "messageStore_query C s tenant
                      [(''interface'', DwnInterfaceName_Records),
                       (''recordId'', recordId (descriptor message))]"
  from stored have "?existing \<noteq> []" by auto
  then obtain n where newest: "getNewestMessage (Message_getCid C) ?existing = Some n"
    using getNewestMessage_None [of "Message_getCid C" ?existing] by auto
  from getNewestMessage_max [OF newest] stored have "\<not> isNewer (Message_getCid C) m n"
    by blast
  then have older: "\<not> isNewer (Message_getCid C) message n"
    using isNewer_same_key [OF same_cid same_date] by simp
  with newest have no: "\<not> fst (resolveNewest (Message_getCid C) ?existing message)"
    by (simp add: resolveNewest_def)
  have conflict: "code (status reply) = 409 \<and> s' = s
      \<and> calls = [CallParse, CallAuthenticate, CallAuthorize, CallQuery, CallGetNewestMessage,
                  CallIsNewer]"
    if "admit C tenant message rd s = (reply, calls, s')" for rd
  proof -
    from that have "code (status (fst (admit C tenant message rd s))) = code (status reply)"
      by simp
    with no have c: "code (status reply) = 409"
      by (simp add: admit_code Let_def)
    with admit_reject_state [OF that] newest show ?thesis by simp
  qed
  from handle_cases [OF run] have "code (status reply) \<in> {400, 401, 409} \<and> s' = s
         \<and> CallPut \<notin> set calls \<and> CallAppend \<notin> set calls
         \<and> CallDeleteAllOlderMessages \<notin> set calls"
    by (elim disjE exE conjE) (auto simp: fromError_code dest: conflict)
  with newest older show ?thesis by simp
qed


text \<open>
  C5 on concrete inputs: a delete is accepted once; sent again to the resulting state,
  it is answered 409 and the state stays as it was.
\<close>

theorem replay_not_admitted_witness:
  "code (status (fst (handle exampleCollaborators ''alice'' exampleDelete
                        ([exampleWrite, exampleDelete], [''Delete2023-01-02alice''])))) = 409
   \<and> snd (snd (handle exampleCollaborators ''alice'' exampleDelete
                  ([exampleWrite, exampleDelete], [''Delete2023-01-02alice''])))
     = ([exampleWrite, exampleDelete], [''Delete2023-01-02alice''])
   \<and> snd (snd (handle exampleCollaborators ''alice'' exampleDelete ([exampleWrite], [])))
     = ([exampleWrite, exampleDelete], [''Delete2023-01-02alice''])"
proof -
  have stored: "exampleDelete \<in> set (messageStore_query exampleCollaborators
                    ([exampleWrite, exampleDelete], [''Delete2023-01-02alice'']) ''alice''
                    [(''interface'', DwnInterfaceName_Records),
                     (''recordId'', recordId (descriptor exampleDelete))])"
    by (simp add: example_defs)
  from replay_not_admitted [OF stored refl refl example_replay] show ?thesis
    by (simp add: example_replay example_accept)
qed

text \<open>
  C7. When the handler accepts (202), its calls are, in this order and with none
  left out: parse, authenticate, authorize, query, getNewestMessage, isNewer,
  constructIndexes, messageStore.put, getCid, eventLog.append, pruning. The message was
  parsed, authenticated and authorized. Conflict resolution has run and decided for the
  incoming message: there is a newest existing message, the incoming message strictly
  outranks it, it is not a delete, and the newest message overall is the incoming one.
  The final state is the pruning (with the incoming message as the newest) of the
  appended log of the store after the put: the put comes before the append, which comes
  before the pruning.
\<close>

theorem handle_accept_order:
  assumes run: "handle C tenant message s = (reply, calls, s')"
    and accepted: "code (status reply) = 202"
  shows "calls = [CallParse, CallAuthenticate, CallAuthorize, CallQuery, CallGetNewestMessage,
                  CallIsNewer, CallConstructIndexes, CallPut, CallGetCid, CallAppend,
                  CallDeleteAllOlderMessages]
         \<and> (\<exists>rd. RecordsDelete_parse C message = Inr rd
               \<and> authenticate C (authorization message) = Inr ()
               \<and> authorize C rd tenant = Inr ()
               \<and> s' = deleteAllOlderMessagesButKeepInitialWrite C
                        (eventLog_append C
                           (messageStore_put C s tenant message (constructIndexes tenant rd))
                           tenant (Message_getCid C message))
                        tenant
                        (messageStore_query C s tenant
                           [(''interface'', DwnInterfaceName_Records),
                            (''recordId'', recordId (descriptor message))])
                        message)
         \<and> resolveNewest (Message_getCid C)
               (messageStore_query C s tenant
                  [(''interface'', DwnInterfaceName_Records),
                   (''recordId'', recordId (descriptor message))]) message = (True, message)
         \<and> (\<exists>n. getNewestMessage (Message_getCid C)
                    (messageStore_query C s tenant
                       [(''interface'', DwnInterfaceName_Records),
                        (''recordId'', recordId (descriptor message))]) = Some n
                 \<and> isNewer (Message_getCid C) message n
                 \<and> method' (descriptor n) \<noteq> DwnMethodName_Delete)"
  using handle_cases [OF run]
proof (elim disjE exE conjE)
  fix rd assume parsed: "RecordsDelete_parse C message = Inr rd"
    and auth: "authenticate C (authorization message) = Inr ()" "authorize C rd tenant = Inr ()"
    and "admit C tenant message rd s = (reply, calls, s')"
  from admit_accept [OF this(4) accepted] parsed auth show ?thesis
    by blast
qed (use accepted in \<open>simp_all add: fromError_code\<close>)

text \<open>
  C7 on a concrete input: an accepted delete of a stored write, which it outranks.
\<close>

theorem handle_accept_order_witness:
  "fst (snd (handle exampleCollaborators ''alice'' exampleDelete ([exampleWrite], [])))
     = [CallParse, CallAuthenticate, CallAuthorize, CallQuery, CallGetNewestMessage,
        CallIsNewer, CallConstructIndexes, CallPut, CallGetCid, CallAppend,
        CallDeleteAllOlderMessages]
   \<and> code (status (fst (handle exampleCollaborators ''alice'' exampleDelete
                          ([exampleWrite], [])))) = 202
   \<and> isNewer (Message_getCid exampleCollaborators) exampleDelete exampleWrite
   \<and> method' (descriptor exampleWrite) \<noteq> DwnMethodName_Delete"
proof -
  have newest: "getNewestMessage (Message_getCid exampleCollaborators)
         (messageStore_query exampleCollaborators ([exampleWrite], []) ''alice''
            [(''interface'', DwnInterfaceName_Records),
             (''recordId'', recordId (descriptor exampleDelete))]) = Some exampleWrite"
    by (simp add: getNewestMessage_def example_defs)
  have accepted: "code (status \<lparr>status = \<lparr>code = 202, detail = ''Accepted''\<rparr>\<rparr>) = 202"
    by simp
  from handle_accept_order [OF example_accept accepted] newest
  have "isNewer (Message_getCid exampleCollaborators) exampleDelete exampleWrite
        \<and> method' (descriptor exampleWrite) \<noteq> DwnMethodName_Delete"
    by auto
  then show ?thesis by (simp add: example_accept)
qed





text \<open>
  C8. The pre-flight checks of \<open>Dwn.preprocessingChecks\<close>: a tenant the node does not
  serve gets 401, whatever the shape of the message; for a served tenant, a missing
  \<open>descriptor.interface\<close> or \<open>descriptor.method\<close>, or one that differs from the expected
  interface or method of a bound entry point, gets 400; the checks pass exactly when the
  tenant is served, both names are present and as expected, and the schema validation
  does not throw. A rejection is the reply of \<open>processMessage\<close>, \<open>handleRecordsRead\<close>,
  \<open>handleMessagesGet\<close> and \<open>synchronizePrunedInitialRecordsWrite\<close> with the state
  unchanged, whatever the handlers are: no handler runs. A message that passes is given
  to the handler registered under its interface and method.
\<close>

theorem preflight_checks:
  "(\<not> tenantGate_isTenant dwn tenant \<longrightarrow>
      preprocessingChecks dwn tenant raw ei em
        = Some \<lparr>status = \<lparr>code = 401, detail = tenant @ '' is not a tenant''\<rparr>\<rparr>)
   \<and> (tenantGate_isTenant dwn tenant
        \<and> (dwnInterfaceOf raw = None \<or> dwnMethodOf raw = None
            \<or> (\<exists>e. ei = Some e \<and> dwnInterfaceOf raw \<noteq> Some e)
            \<or> (\<exists>e. em = Some e \<and> dwnMethodOf raw \<noteq> Some e)) \<longrightarrow>
      (\<exists>r. preprocessingChecks dwn tenant raw ei em = Some r \<and> code (status r) = 400))
   \<and> (preprocessingChecks dwn tenant raw ei em = None \<longleftrightarrow>
        tenantGate_isTenant dwn tenant
        \<and> (\<exists>i m. dwnInterfaceOf raw = Some i \<and> dwnMethodOf raw = Some m
               \<and> (ei = None \<or> ei = Some i) \<and> (em = None \<or> em = Some m))
        \<and> (\<exists>u. Message_validateJsonSchema dwn raw = Inr u))
   \<and> (\<forall>r. preprocessingChecks dwn tenant raw ei em = Some r \<longrightarrow>
         code (status r) = (if tenantGate_isTenant dwn tenant then 400 else 401))
   \<and> (\<forall>r. preprocessingChecks dwn tenant raw None None = Some r \<longrightarrow>
         (\<forall>H. processMessage (dwn\<lparr>methodHandlers := H\<rparr>) tenant raw dataStream s = Inr (r, s)))
   \<and> (\<forall>r. preprocessingChecks dwn tenant (Some message)
              (Some DwnInterfaceName_Records) (Some DwnMethodName_Read) = Some r \<longrightarrow>
         (\<forall>h. handleRecordsRead (dwn\<lparr>RecordsReadHandler_handle := h\<rparr>) tenant message s = (r, s)))
   \<and> (\<forall>r. preprocessingChecks dwn tenant (Some message)
              (Some DwnInterfaceName_Messages) (Some DwnMethodName_Get) = Some r \<longrightarrow>
         (\<forall>h. handleMessagesGet (dwn\<lparr>MessagesGetHandler_handle := h\<rparr>) tenant message s = (r, s)))
   \<and> (\<forall>r. preprocessingChecks dwn tenant (Some message)
              (Some DwnInterfaceName_Records) (Some DwnMethodName_Write) = Some r \<longrightarrow>
         (\<forall>h. synchronizePrunedInitialRecordsWrite (dwn\<lparr>RecordsWriteHandler_handle := h\<rparr>)
                 tenant message s = (r, s)))
   \<and> (preprocessingChecks dwn tenant raw None None = None \<longrightarrow>
        (\<exists>m i n. raw = Some m \<and> dwnInterfaceOf raw = Some i \<and> dwnMethodOf raw = Some n
           \<and> processMessage dwn tenant raw dataStream s
               = (case methodHandlers dwn (i @ n) of
                    None \<Rightarrow> Inl (Error ''TypeError'')
                  | Some handler \<Rightarrow> Inr (handler tenant m dataStream s))))"
proof (intro conjI allI impI)
  show "preprocessingChecks dwn tenant raw ei em
          = Some \<lparr>status = \<lparr>code = 401, detail = tenant @ '' is not a tenant''\<rparr>\<rparr>"
    if "\<not> tenantGate_isTenant dwn tenant"
    using that by (simp add: preprocessingChecks_def)
  show "\<exists>r. preprocessingChecks dwn tenant raw ei em = Some r \<and> code (status r) = 400"
    if "tenantGate_isTenant dwn tenant
        \<and> (dwnInterfaceOf raw = None \<or> dwnMethodOf raw = None
            \<or> (\<exists>e. ei = Some e \<and> dwnInterfaceOf raw \<noteq> Some e)
            \<or> (\<exists>e. em = Some e \<and> dwnMethodOf raw \<noteq> Some e))"
    using that
    by (auto simp: preprocessingChecks_def Let_def fromError_code split: sum.splits)
  show "preprocessingChecks dwn tenant raw ei em = None \<longleftrightarrow>
        tenantGate_isTenant dwn tenant
        \<and> (\<exists>i m. dwnInterfaceOf raw = Some i \<and> dwnMethodOf raw = Some m
               \<and> (ei = None \<or> ei = Some i) \<and> (em = None \<or> em = Some m))
        \<and> (\<exists>u. Message_validateJsonSchema dwn raw = Inr u)"
    by (rule preprocessingChecks_None)
  show "code (status r) = (if tenantGate_isTenant dwn tenant then 400 else 401)"
    if "preprocessingChecks dwn tenant raw ei em = Some r" for r
    using that by (rule preprocessingChecks_code)
  show "processMessage (dwn\<lparr>methodHandlers := H\<rparr>) tenant raw dataStream s = Inr (r, s)"
    if "preprocessingChecks dwn tenant raw None None = Some r" for r H
    using that by (simp add: processMessage_def preprocessingChecks_handlers)
  show "handleRecordsRead (dwn\<lparr>RecordsReadHandler_handle := h\<rparr>) tenant message s = (r, s)"
    if "preprocessingChecks dwn tenant (Some message)
          (Some DwnInterfaceName_Records) (Some DwnMethodName_Read) = Some r" for r h
    using that by (simp add: handleRecordsRead_def preprocessingChecks_handlers)
  show "handleMessagesGet (dwn\<lparr>MessagesGetHandler_handle := h\<rparr>) tenant message s = (r, s)"
    if "preprocessingChecks dwn tenant (Some message)
          (Some DwnInterfaceName_Messages) (Some DwnMethodName_Get) = Some r" for r h
    using that by (simp add: handleMessagesGet_def preprocessingChecks_handlers)
  show "synchronizePrunedInitialRecordsWrite (dwn\<lparr>RecordsWriteHandler_handle := h\<rparr>)
          tenant message s = (r, s)"
    if "preprocessingChecks dwn tenant (Some message)
          (Some DwnInterfaceName_Records) (Some DwnMethodName_Write) = Some r" for r h
    using that by (simp add: synchronizePrunedInitialRecordsWrite_def preprocessingChecks_handlers)
  show "\<exists>m i n. raw = Some m \<and> dwnInterfaceOf raw = Some i \<and> dwnMethodOf raw = Some n
           \<and> processMessage dwn tenant raw dataStream s
               = (case methodHandlers dwn (i @ n) of
                    None \<Rightarrow> Inl (Error ''TypeError'')
                  | Some handler \<Rightarrow> Inr (handler tenant m dataStream s))"
    if pass: "preprocessingChecks dwn tenant raw None None = None"
  proof -
    from pass obtain i n where i: "dwnInterfaceOf raw = Some i" and n: "dwnMethodOf raw = Some n"
      by (auto simp: preprocessingChecks_None)
    from i obtain m d where raw: "raw = Some m" and d: "rawDescriptor m = Some d"
      by (auto simp: dwnInterfaceOf_def split: option.splits)
    with i n have "rawInterface d = Some i" "rawMethod d = Some n"
      by (simp_all add: dwnInterfaceOf_def dwnMethodOf_def)
    with raw d pass have "processMessage dwn tenant raw dataStream s
               = (case methodHandlers dwn (i @ n) of
                    None \<Rightarrow> Inl (Error ''TypeError'')
                  | Some handler \<Rightarrow> Inr (handler tenant m dataStream s))"
      by (simp add: processMessage_def handlerKey_def split: option.splits)
    with raw i n show ?thesis by blast
  qed
qed

text \<open>
  C8 on concrete inputs: a tenant that is not served, a message with no method, a
  message for the wrong method of a bound entry point, and a message that is dispatched.
\<close>

theorem preflight_checks_witness:
  "processMessage exampleDwn ''mallory'' None None 0
     = Inr (\<lparr>status = \<lparr>code = 401, detail = ''mallory is not a tenant''\<rparr>\<rparr>, 0)
   \<and> (\<exists>r. processMessage exampleDwn ''alice'' (Some (exampleRaw (Some ''Records'') None)) None 0
            = Inr (r, 0) \<and> code (status r) = 400)
   \<and> (\<exists>r. handleRecordsRead exampleDwn ''alice'' (exampleRaw (Some ''Records'') (Some ''Delete'')) 0
            = (r, 0) \<and> code (status r) = 400)
   \<and> processMessage exampleDwn ''alice'' (Some (exampleRaw (Some ''Records'') (Some ''Delete'')))
        None 0
       = Inr (\<lparr>status = \<lparr>code = 202, detail = ''Accepted''\<rparr>\<rparr>, 1)"
proof -
  have same: "exampleDwn\<lparr>methodHandlers := methodHandlers exampleDwn\<rparr> = exampleDwn"
    "exampleDwn\<lparr>RecordsReadHandler_handle := RecordsReadHandler_handle exampleDwn\<rparr> = exampleDwn"
    by simp_all
  have not_tenant: "\<not> tenantGate_isTenant exampleDwn ''mallory''"
    and tenant: "tenantGate_isTenant exampleDwn ''alice''"
    by (simp_all add: exampleDwn_def)
  have missing: "dwnMethodOf (Some (exampleRaw (Some ''Records'') None)) = None"
    by (simp add: dwnMethodOf_def exampleRaw_def)
  have mismatch: "\<exists>e. Some DwnMethodName_Read = Some e
      \<and> dwnMethodOf (Some (exampleRaw (Some ''Records'') (Some ''Delete''))) \<noteq> Some e"
    by (simp add: dwnMethodOf_def exampleRaw_def DwnMethodName_Read_def)
  have pass: "tenantGate_isTenant exampleDwn ''alice''
      \<and> (\<exists>i m. dwnInterfaceOf (Some (exampleRaw (Some ''Records'') (Some ''Delete''))) = Some i
             \<and> dwnMethodOf (Some (exampleRaw (Some ''Records'') (Some ''Delete''))) = Some m
             \<and> (None = None \<or> None = Some i) \<and> (None = None \<or> None = Some m))
      \<and> (\<exists>u. Message_validateJsonSchema exampleDwn
                (Some (exampleRaw (Some ''Records'') (Some ''Delete''))) = Inr u)"
    by (simp add: exampleDwn_def dwnInterfaceOf_def dwnMethodOf_def exampleRaw_def)
  note inst1 = preflight_checks [where dwn = exampleDwn and tenant = "''mallory''" and raw = None
      and ei = None and em = None and dataStream = None and s = "0::nat"]
  note inst2 = preflight_checks [where dwn = exampleDwn and tenant = "''alice''"
      and raw = "Some (exampleRaw (Some ''Records'') None)"
      and ei = None and em = None and dataStream = None and s = "0::nat"]
  note inst3 = preflight_checks [where dwn = exampleDwn and tenant = "''alice''"
      and raw = "Some (exampleRaw (Some ''Records'') (Some ''Delete''))"
      and ei = "Some DwnInterfaceName_Records" and em = "Some DwnMethodName_Read"
      and message = "exampleRaw (Some ''Records'') (Some ''Delete'')" and s = "0::nat"]
  note inst4 = preflight_checks [where dwn = exampleDwn and tenant = "''alice''"
      and raw = "Some (exampleRaw (Some ''Records'') (Some ''Delete''))"
      and ei = None and em = None and dataStream = None and s = "0::nat"]
  from inst1 not_tenant have "processMessage exampleDwn ''mallory'' None None 0
     = Inr (\<lparr>status = \<lparr>code = 401, detail = ''mallory is not a tenant''\<rparr>\<rparr>, 0)"
    using same(1) by (metis append_Cons append_Nil)
  moreover from inst2 tenant missing
  have "\<exists>r. processMessage exampleDwn ''alice'' (Some (exampleRaw (Some ''Records'') None)) None 0
            = Inr (r, 0) \<and> code (status r) = 400"
    using same(1) by metis
  moreover from inst3 tenant mismatch
  have "\<exists>r. handleRecordsRead exampleDwn ''alice'' (exampleRaw (Some ''Records'') (Some ''Delete'')) 0
            = (r, 0) \<and> code (status r) = 400"
    using same(2) by metis
  moreover from inst4 pass
  have "processMessage exampleDwn ''alice'' (Some (exampleRaw (Some ''Records'') (Some ''Delete'')))
          None 0
        = Inr (\<lparr>status = \<lparr>code = 202, detail = ''Accepted''\<rparr>\<rparr>, 1)"
    by (auto simp: exampleDwn_def dwnInterfaceOf_def dwnMethodOf_def exampleRaw_def)
  ultimately show ?thesis by blast
qed



text \<open>
  C9 fails on the code. \<open>typesCopy\<close> is a shallow copy, so the loop writes the
  normalized schema into the type object of the caller's definition. On a definition
  with one type whose schema has no scheme: the caller's definition object and its
  \<open>types\<close> object are as before and a new definition is returned, but the schema of the
  caller's type object has changed.
\<close>

theorem normalizeDefinition_writes_argument:
  "types (definitionObjects exampleHeap ! 0) = Some 0
   \<and> (case deref (typesObjects exampleHeap) 0 of
         Some entries \<Rightarrow> map_of entries ''note'' | None \<Rightarrow> None) = Some 0
   \<and> schema (typeObjects exampleHeap ! 0) = Some ''example.com/note''
   \<and> fst (normalizeDefinition exampleNormalizeUrl exampleNormalizeUrl exampleHeap 0) = Inr 1
   \<and> definitionObjects (snd (normalizeDefinition exampleNormalizeUrl exampleNormalizeUrl
                                 exampleHeap 0)) ! 0
       = definitionObjects exampleHeap ! 0
   \<and> typesObjects (snd (normalizeDefinition exampleNormalizeUrl exampleNormalizeUrl
                            exampleHeap 0)) ! 0
       = typesObjects exampleHeap ! 0
   \<and> schema (typeObjects (snd (normalizeDefinition exampleNormalizeUrl exampleNormalizeUrl
                                  exampleHeap 0)) ! 0)
       = Some ''http://example.com/note''
   \<and> typeObjects (snd (normalizeDefinition exampleNormalizeUrl exampleNormalizeUrl
                           exampleHeap 0))
       \<noteq> typeObjects exampleHeap"
  by (simp add: normalizeDefinition_def deref_def exampleHeap_def exampleNormalizeUrl_def Let_def)

text \<open>
  C10. Whenever \<open>HdKey.derivePrivateKey\<close> returns a key, the key has the ancestor's
  \<open>rootKeyId\<close> and \<open>derivationScheme\<close>, and its \<open>derivationPath\<close> is the ancestor's
  (the empty path when absent) followed by \<open>subDerivationPath\<close>. It returns a key
  exactly when none of the three \<open>Secp256k1\<close> operations throws.
\<close>

theorem derivePrivateKey_descendant:
  "(\<forall>k. derivePrivateKey S ancestorKey subDerivationPath = Inr k \<longrightarrow>
        rootKeyId k = rootKeyId ancestorKey
        \<and> derivationScheme k = derivationScheme ancestorKey
        \<and> derivationPath k
            = Some ((case derivationPath ancestorKey of None \<Rightarrow> [] | Some p \<Rightarrow> p)
                    @ subDerivationPath))
   \<and> ((\<exists>k. derivePrivateKey S ancestorKey subDerivationPath = Inr k)
        \<longleftrightarrow> (\<exists>bytes derived jwk.
               privateJwkToBytes S (derivedPrivateKey ancestorKey) = Inr bytes
               \<and> secpDerivePrivateKey S bytes subDerivationPath = Inr derived
               \<and> privateKeyToJwk S derived = Inr jwk))"
  by (auto simp: derivePrivateKey_def Let_def split: sum.splits)

text \<open>
  C10 on concrete inputs: an ancestor with no derivation path and one with a path.
\<close>

theorem derivePrivateKey_descendant_witness:
  "(\<exists>k. derivePrivateKey exampleSecp256k1 exampleAncestorKey [''a'', ''bc''] = Inr k
        \<and> rootKeyId k = ''root'' \<and> derivationScheme k = Protocols
        \<and> derivationPath k = Some [''a'', ''bc''])
   \<and> (\<exists>k. derivePrivateKey exampleSecp256k1
             (exampleAncestorKey\<lparr>derivationPath := Some [''x'']\<rparr>) [''a'', ''bc''] = Inr k
        \<and> rootKeyId k = ''root'' \<and> derivationScheme k = Protocols
        \<and> derivationPath k = Some [''x'', ''a'', ''bc''])"
proof -
  have r1: "\<exists>bytes derived jwk.
      privateJwkToBytes exampleSecp256k1 (derivedPrivateKey exampleAncestorKey) = Inr bytes
      \<and> secpDerivePrivateKey exampleSecp256k1 bytes [''a'', ''bc''] = Inr derived
      \<and> privateKeyToJwk exampleSecp256k1 derived = Inr jwk"
    by (simp add: exampleSecp256k1_def exampleAncestorKey_def)
  have r2: "\<exists>bytes derived jwk.
      privateJwkToBytes exampleSecp256k1
        (derivedPrivateKey (exampleAncestorKey\<lparr>derivationPath := Some [''x'']\<rparr>)) = Inr bytes
      \<and> secpDerivePrivateKey exampleSecp256k1 bytes [''a'', ''bc''] = Inr derived
      \<and> privateKeyToJwk exampleSecp256k1 derived = Inr jwk"
    by (simp add: exampleSecp256k1_def exampleAncestorKey_def)
  from derivePrivateKey_descendant [of exampleSecp256k1 exampleAncestorKey "[''a'', ''bc'']"] r1
  have "\<exists>k. derivePrivateKey exampleSecp256k1 exampleAncestorKey [''a'', ''bc''] = Inr k
        \<and> rootKeyId k = ''root'' \<and> derivationScheme k = Protocols
        \<and> derivationPath k = Some [''a'', ''bc'']"
    by (auto simp: exampleAncestorKey_def)
  moreover
  from derivePrivateKey_descendant [of exampleSecp256k1
         "exampleAncestorKey\<lparr>derivationPath := Some [''x'']\<rparr>" "[''a'', ''bc'']"] r2
  have "\<exists>k. derivePrivateKey exampleSecp256k1
             (exampleAncestorKey\<lparr>derivationPath := Some [''x'']\<rparr>) [''a'', ''bc''] = Inr k
        \<and> rootKeyId k = ''root'' \<and> derivationScheme k = Protocols
        \<and> derivationPath k = Some [''x'', ''a'', ''bc'']"
    by (auto simp: exampleAncestorKey_def)
  ultimately show ?thesis by blast
qed


end
